theory Spec2Isabelle
  imports Complex_Main
begin

section \<open>Numbers and time\<close>

text \<open>
  A TypeScript \<open>number\<close> that holds an angle, a coordinate or a score is modelled as a
  \<^typ>\<open>real\<close>: the arithmetic of the source is read as exact arithmetic, and rounding of
  IEEE doubles is outside the model. Wall-clock readings (\<open>Date.now()\<close>) and durations
  are integral milliseconds, \<^typ>\<open>int\<close>; counters are \<^typ>\<open>nat\<close>. Every read of the clock
  is an explicit argument \<open>now\<close> of the function that makes it.
\<close>

section \<open>Angle calculator (src/lib/pose/angles.ts)\<close>

record PoseLandmark =
  x :: real
  y :: real
  z :: real
  visibility :: "real option"

record JointAngles =
  trunkAngle :: real
  hipAngle :: real
  kneeAngle :: real
  shoulderAngle :: real
  elbowAngle :: real
  ankleAngle :: real

record vec2 =
  vx :: real
  vy :: real

definition SMOOTHING_FACTOR :: real where
  "SMOOTHING_FACTOR = 0.8"

definition isLandmarkVisible :: "PoseLandmark \<Rightarrow> bool" where
  "isLandmarkVisible landmark =
     (case visibility landmark of None \<Rightarrow> False | Some v \<Rightarrow> v > 0.5)"

definition smoothAngle :: "real \<Rightarrow> real \<Rightarrow> real" where
  "smoothAngle current previous =
     previous * SMOOTHING_FACTOR + current * (1 - SMOOTHING_FACTOR)"

definition calculateAngleBetweenVectors :: "vec2 \<Rightarrow> vec2 \<Rightarrow> real" where
  "calculateAngleBetweenVectors v1 v2 =
     (let dot = vx v1 * vx v2 + vy v1 * vy v2;
          mag1 = sqrt (vx v1 * vx v1 + vy v1 * vy v1);
          mag2 = sqrt (vx v2 * vx v2 + vy v2 * vy v2)
      in if mag1 = 0 \<or> mag2 = 0 then 0
         else let cosAngle = dot / (mag1 * mag2);
                  clampedCos = max (- 1) (min 1 cosAngle);
                  angle = arccos clampedCos * (180 / pi)
              in max 0 (min 180 angle))"

text \<open>
  The six per-joint functions are private and are called by \<open>calculateAngles\<close> only,
  after its guard \<open>landmarks.length < 33\<close> has returned: every index they read
  (11, 13, 15, 23, 25, 27, 31) is then inside the list, so \<open>landmarks ! i\<close> is the
  element the source reads.
\<close>

definition calculateTrunkAngle :: "PoseLandmark list \<Rightarrow> real" where
  "calculateTrunkAngle landmarks =
     (let leftHip = landmarks ! 23;
          leftShoulder = landmarks ! 11
      in if \<not> isLandmarkVisible leftHip \<or> \<not> isLandmarkVisible leftShoulder then 0
         else let hx = x leftShoulder - x leftHip;
                  hy = y leftShoulder - y leftHip;
                  magnitude = sqrt (hx * hx + hy * hy)
              in if magnitude = 0 then 0
                 else let ny = hy / magnitude;
                          angle = arccos (- ny) * (180 / pi)
                      in min 90 (max 0 angle))"

definition calculateHipAngle :: "PoseLandmark list \<Rightarrow> real" where
  "calculateHipAngle landmarks =
     (let leftHip = landmarks ! 23;
          leftKnee = landmarks ! 25;
          leftShoulder = landmarks ! 11
      in if \<not> isLandmarkVisible leftHip \<or> \<not> isLandmarkVisible leftKnee
            \<or> \<not> isLandmarkVisible leftShoulder then 0
         else let trunkVector = \<lparr>vx = x leftShoulder - x leftHip, vy = y leftShoulder - y leftHip\<rparr>;
                  thighVector = \<lparr>vx = x leftKnee - x leftHip, vy = y leftKnee - y leftHip\<rparr>;
                  acuteAngle = calculateAngleBetweenVectors trunkVector thighVector
              in 180 - acuteAngle)"

definition calculateKneeAngle :: "PoseLandmark list \<Rightarrow> real" where
  "calculateKneeAngle landmarks =
     (let leftHip = landmarks ! 23;
          leftKnee = landmarks ! 25;
          leftAnkle = landmarks ! 27
      in if \<not> isLandmarkVisible leftHip \<or> \<not> isLandmarkVisible leftKnee
            \<or> \<not> isLandmarkVisible leftAnkle then 0
         else let thighVector = \<lparr>vx = x leftKnee - x leftHip, vy = y leftKnee - y leftHip\<rparr>;
                  shinVector = \<lparr>vx = x leftAnkle - x leftKnee, vy = y leftAnkle - y leftKnee\<rparr>;
                  acuteAngle = calculateAngleBetweenVectors thighVector shinVector
              in 180 - acuteAngle)"

definition calculateShoulderAngle :: "PoseLandmark list \<Rightarrow> real" where
  "calculateShoulderAngle landmarks =
     (let leftShoulder = landmarks ! 11;
          leftElbow = landmarks ! 13;
          leftHip = landmarks ! 23
      in if \<not> isLandmarkVisible leftShoulder \<or> \<not> isLandmarkVisible leftElbow
            \<or> \<not> isLandmarkVisible leftHip then 0
         else let trunkVector = \<lparr>vx = x leftHip - x leftShoulder, vy = y leftHip - y leftShoulder\<rparr>;
                  upperArmVector = \<lparr>vx = x leftElbow - x leftShoulder, vy = y leftElbow - y leftShoulder\<rparr>;
                  acuteAngle = calculateAngleBetweenVectors trunkVector upperArmVector
              in 180 - acuteAngle)"

definition calculateElbowAngle :: "PoseLandmark list \<Rightarrow> real" where
  "calculateElbowAngle landmarks =
     (let leftShoulder = landmarks ! 11;
          leftElbow = landmarks ! 13;
          leftWrist = landmarks ! 15
      in if \<not> isLandmarkVisible leftShoulder \<or> \<not> isLandmarkVisible leftElbow
            \<or> \<not> isLandmarkVisible leftWrist then 0
         else let upperArmVector = \<lparr>vx = x leftElbow - x leftShoulder, vy = y leftElbow - y leftShoulder\<rparr>;
                  forearmVector = \<lparr>vx = x leftWrist - x leftElbow, vy = y leftWrist - y leftElbow\<rparr>;
                  acuteAngle = calculateAngleBetweenVectors upperArmVector forearmVector
              in 180 - acuteAngle)"

definition calculateAnkleAngle :: "PoseLandmark list \<Rightarrow> real" where
  "calculateAnkleAngle landmarks =
     (let leftKnee = landmarks ! 25;
          leftAnkle = landmarks ! 27;
          leftFoot = landmarks ! 31
      in if \<not> isLandmarkVisible leftKnee \<or> \<not> isLandmarkVisible leftAnkle
            \<or> \<not> isLandmarkVisible leftFoot then 0
         else let shinVector = \<lparr>vx = x leftAnkle - x leftKnee, vy = y leftAnkle - y leftKnee\<rparr>;
                  footVector = \<lparr>vx = x leftFoot - x leftAnkle, vy = y leftFoot - y leftAnkle\<rparr>;
                  acuteAngle = calculateAngleBetweenVectors shinVector footVector
              in 180 - acuteAngle)"

definition zeroAngles :: JointAngles where
  "zeroAngles = \<lparr>trunkAngle = 0, hipAngle = 0, kneeAngle = 0,
                  shoulderAngle = 0, elbowAngle = 0, ankleAngle = 0\<rparr>"

definition rawAngles :: "PoseLandmark list \<Rightarrow> JointAngles" where
  "rawAngles landmarks =
     \<lparr>trunkAngle = calculateTrunkAngle landmarks,
      hipAngle = calculateHipAngle landmarks,
      kneeAngle = calculateKneeAngle landmarks,
      shoulderAngle = calculateShoulderAngle landmarks,
      elbowAngle = calculateElbowAngle landmarks,
      ankleAngle = calculateAnkleAngle landmarks\<rparr>"

definition smoothAll :: "JointAngles \<Rightarrow> JointAngles \<Rightarrow> JointAngles" where
  "smoothAll raw prev =
     \<lparr>trunkAngle = smoothAngle (trunkAngle raw) (trunkAngle prev),
      hipAngle = smoothAngle (hipAngle raw) (hipAngle prev),
      kneeAngle = smoothAngle (kneeAngle raw) (kneeAngle prev),
      shoulderAngle = smoothAngle (shoulderAngle raw) (shoulderAngle prev),
      elbowAngle = smoothAngle (elbowAngle raw) (elbowAngle prev),
      ankleAngle = smoothAngle (ankleAngle raw) (ankleAngle prev)\<rparr>"

text \<open>
  \<open>AngleCalculator.lastAngles\<close> is a static field, \<open>JointAngles | null\<close>, initially
  \<open>null\<close>. \<open>calculateAngles\<close> takes its value and returns the result together with
  the value it leaves in the field.
\<close>

definition calculateAngles ::
  "PoseLandmark list \<Rightarrow> JointAngles option \<Rightarrow> JointAngles \<times> JointAngles option" where
  "calculateAngles landmarks lastAngles =
     (if length landmarks < 33 then (zeroAngles, lastAngles)
      else let raw = rawAngles landmarks
           in case lastAngles of
                Some prev \<Rightarrow> (let smoothedAngles = smoothAll raw prev
                              in (smoothedAngles, Some smoothedAngles))
              | None \<Rightarrow> (raw, Some raw))"

section \<open>Repetition detector (class RepDetector)\<close>

datatype RepState = IDLE | STARTING | PEAK | ENDING | COMPLETE

datatype Exercise = Squat | Pullup

text \<open>The value \<open>update\<close> returns. Its fields carry the prefix \<open>out_\<close> to keep them apart
  from the detector's private fields of the same names.\<close>

record RepDetection =
  out_state :: RepState
  out_repCount :: nat
  out_confidence :: real
  out_lastRepTime :: int
  out_averageTempo :: real

record RepDetector =
  exercise :: Exercise
  currentState :: RepState
  repCount :: nat
  lastRepTime :: int
  repStartTime :: int
  repTimes :: "int list"
  lastAngles :: "JointAngles option"
  stateConfidence :: real
  consecutiveFrames :: nat
  lastUpdateTime :: int
  isCalibrated :: bool
  standingHipAngle :: real
  standingKneeAngle :: real
  squatDepthHipAngle :: real
  calibrationFrames :: nat

definition UPDATE_THROTTLE :: int where
  "UPDATE_THROTTLE = 50"

definition CALIBRATION_FRAMES_NEEDED :: nat where
  "CALIBRATION_FRAMES_NEEDED = 25"

definition MIN_REP_DURATION :: int where
  "MIN_REP_DURATION = 1000"

definition MAX_REP_DURATION :: int where
  "MAX_REP_DURATION = 20000"

text \<open>The constructor: the field initialisers of the class, and the exercise given.\<close>

definition newRepDetector :: "Exercise \<Rightarrow> RepDetector" where
  "newRepDetector ex =
     \<lparr>exercise = ex, currentState = IDLE, repCount = 0, lastRepTime = 0, repStartTime = 0,
      repTimes = [], lastAngles = None, stateConfidence = 0, consecutiveFrames = 0,
      lastUpdateTime = 0, isCalibrated = False, standingHipAngle = 0, standingKneeAngle = 0,
      squatDepthHipAngle = 0, calibrationFrames = 0\<rparr>"

definition calculateAverageTempo :: "RepDetector \<Rightarrow> real" where
  "calculateAverageTempo d =
     (if length (repTimes d) = 0 then 0
      else real_of_int (sum_list (repTimes d)) / real (length (repTimes d)))"

definition getCurrentDetection :: "RepDetector \<Rightarrow> RepDetection" where
  "getCurrentDetection d =
     \<lparr>out_state = currentState d, out_repCount = repCount d,
      out_confidence = stateConfidence d, out_lastRepTime = lastRepTime d,
      out_averageTempo = calculateAverageTempo d\<rparr>"

definition transitionTo :: "RepState \<Rightarrow> int \<Rightarrow> RepDetector \<Rightarrow> RepDetector" where
  "transitionTo newState timestamp d =
     (if currentState d = newState then d
      else let timeSinceLastTransition = timestamp - lastRepTime d
           in if timeSinceLastTransition < 200 then d
              else d\<lparr>currentState := newState, lastRepTime := timestamp,
                     consecutiveFrames := 0, stateConfidence := 0\<rparr>)"

definition completeRep :: "int \<Rightarrow> RepDetector \<Rightarrow> RepDetector" where
  "completeRep timestamp d =
     (if currentState d = COMPLETE then d
      else let repDuration = timestamp - repStartTime d
           in if repDuration \<ge> MIN_REP_DURATION \<and> repDuration \<le> MAX_REP_DURATION
              then let pushed = repTimes d @ [repDuration];
                       kept = (if length pushed > 10 then tl pushed else pushed)
                   in d\<lparr>repCount := repCount d + 1, repTimes := kept,
                          currentState := COMPLETE\<rparr>
              else d)"

text \<open>\<open>setDynamicThresholds\<close> computes two local values and logs one of them; it writes
  no field.\<close>

definition setDynamicThresholds :: "RepDetector \<Rightarrow> RepDetector" where
  "setDynamicThresholds d = d"

definition calibrate :: "JointAngles \<Rightarrow> int \<Rightarrow> RepDetector \<Rightarrow> RepDetector" where
  "calibrate angles now d =
     (let d1 = (if calibrationFrames d = 0 then d\<lparr>repStartTime := now\<rparr> else d);
          d2 = d1\<lparr>calibrationFrames := calibrationFrames d1 + 1\<rparr>;
          n = real (calibrationFrames d2);
          d3 = (if calibrationFrames d2 \<le> CALIBRATION_FRAMES_NEEDED then
                  (if calibrationFrames d2 \<le> 15 then
                     d2\<lparr>standingHipAngle :=
                           (standingHipAngle d2 * (n - 1) + hipAngle angles) / n,
                         standingKneeAngle :=
                           (standingKneeAngle d2 * (n - 1) + kneeAngle angles) / n\<rparr>
                   else
                     (let hipChange = \<bar>hipAngle angles - standingHipAngle d2\<bar>;
                          kneeChange = \<bar>kneeAngle angles - standingKneeAngle d2\<bar>
                      in if hipChange > 15 \<or> kneeChange > 15
                         then d2\<lparr>squatDepthHipAngle :=
                                   squatDepthHipAngle d2 * 0.8 + hipAngle angles * 0.2\<rparr>
                         else d2))
                else d2)
      in if calibrationFrames d3 \<ge> CALIBRATION_FRAMES_NEEDED then
           (let d4 = d3\<lparr>isCalibrated := True\<rparr>;
                d5 = (if squatDepthHipAngle d4 = 0
                      then d4\<lparr>squatDepthHipAngle := max 60 (standingHipAngle d4 - 80)\<rparr>
                      else d4)
            in setDynamicThresholds d5)
         else d3)"

definition updateSquatState :: "JointAngles \<Rightarrow> int \<Rightarrow> RepDetector \<Rightarrow> RepDetector" where
  "updateSquatState angles now d =
     (if \<not> isCalibrated d then d
      else let hip = hipAngle angles;
               knee = kneeAngle angles;
               hipRange = standingHipAngle d - squatDepthHipAngle d;
               standingThreshold = standingHipAngle d - (hipRange * 0.2);
               squatThreshold = squatDepthHipAngle d + (hipRange * 0.2);
               midThreshold = (standingThreshold + squatThreshold) / 2;
               hipHysteresis = 5;
               kneeHysteresis = 8
           in case currentState d of
                IDLE \<Rightarrow>
                  (let shouldStart = (hip < standingThreshold
                                      \<or> knee < standingKneeAngle d - kneeHysteresis)
                   in if shouldStart then transitionTo STARTING now d else d)
              | STARTING \<Rightarrow>
                  (let shouldPeak = (hip \<le> squatThreshold);
                       shouldReturn = (hip > standingThreshold + hipHysteresis)
                   in if shouldPeak then transitionTo PEAK now d
                      else if shouldReturn then transitionTo IDLE now d
                      else d)
              | PEAK \<Rightarrow>
                  (let shouldRise = (hip > midThreshold)
                   in if shouldRise then transitionTo ENDING now d else d)
              | ENDING \<Rightarrow>
                  (let shouldComplete = (hip > standingThreshold
                                         \<or> knee > standingKneeAngle d - kneeHysteresis);
                       shouldReturnToPeak = (hip \<le> squatThreshold)
                   in if shouldComplete then completeRep now d
                      else if shouldReturnToPeak then transitionTo PEAK now d
                      else d)
              | COMPLETE \<Rightarrow> transitionTo IDLE now d)"

text \<open>The pull-up logic of the source is an empty method body.\<close>

definition updatePullupState ::
  "JointAngles \<Rightarrow> PoseLandmark list \<Rightarrow> int \<Rightarrow> RepDetector \<Rightarrow> RepDetector" where
  "updatePullupState angles landmarks now d = d"

definition checkForStuckState :: "int \<Rightarrow> RepDetector \<Rightarrow> RepDetector" where
  "checkForStuckState now d =
     (let timeInState = now - lastRepTime d;
          isStuck = (timeInState > 5000 \<and> currentState d \<noteq> IDLE
                     \<and> currentState d \<noteq> COMPLETE)
      in if isStuck then completeRep now d else d)"

definition updateConfidence :: "RepDetector \<Rightarrow> RepDetector" where
  "updateConfidence d =
     (let frames = consecutiveFrames d + 1
      in d\<lparr>consecutiveFrames := frames, stateConfidence := min 1 (real frames / 15)\<rparr>)"

text \<open>\<open>update\<close> reads the clock once; \<open>now\<close> is that reading. It returns the detection and
  the detector as the call leaves it.\<close>

definition update ::
  "JointAngles \<Rightarrow> PoseLandmark list \<Rightarrow> int \<Rightarrow> RepDetector \<Rightarrow> RepDetection \<times> RepDetector" where
  "update angles landmarks now d =
     (if now - lastUpdateTime d < UPDATE_THROTTLE then (getCurrentDetection d, d)
      else let d1 = d\<lparr>lastUpdateTime := now\<rparr>
           in if \<not> isCalibrated d1
              then (let d2 = calibrate angles now d1 in (getCurrentDetection d2, d2))
              else let d2 = (if exercise d1 = Squat then updateSquatState angles now d1
                             else updatePullupState angles landmarks now d1);
                       d3 = checkForStuckState now d2;
                       d4 = updateConfidence d3
                   in (getCurrentDetection d4, d4))"

definition reset :: "RepDetector \<Rightarrow> RepDetector" where
  "reset d =
     d\<lparr>currentState := IDLE, repCount := 0, lastRepTime := 0, repStartTime := 0,
       repTimes := [], lastAngles := None, stateConfidence := 0, consecutiveFrames := 0,
       isCalibrated := False, standingHipAngle := 0, standingKneeAngle := 0,
       squatDepthHipAngle := 0, calibrationFrames := 0\<rparr>"

definition forceCalibration :: "RepDetector \<Rightarrow> RepDetector" where
  "forceCalibration d = d\<lparr>isCalibrated := False, calibrationFrames := 0\<rparr>"

text \<open>A sequence of \<open>update\<close> calls, each with its clock reading, its angles and its
  landmarks: the detections returned, in order, and the detector left behind.\<close>

fun updates ::
  "(int \<times> JointAngles \<times> PoseLandmark list) list \<Rightarrow> RepDetector
     \<Rightarrow> RepDetection list \<times> RepDetector" where
  "updates [] d = ([], d)"
| "updates ((now, angles, landmarks) # calls) d =
     (let (det, d1) = update angles landmarks now d;
          (dets, d2) = updates calls d1
      in (det # dets, d2))"

section \<open>Rules engine (src/lib/pose/rules.ts)\<close>

text \<open>The threshold fields \<open>min\<close> and \<open>max\<close> of the source are named \<open>min_thr\<close> and
  \<open>max_thr\<close> here.\<close>

record Thresholds =
  min_thr :: real
  max_thr :: real
  optimal :: real

record ExerciseRule =
  name :: string
  description :: string
  thresholds :: Thresholds
  weight :: real

definition evaluateAngle :: "real \<Rightarrow> ExerciseRule \<Rightarrow> real" where
  "evaluateAngle angle rule =
     (let mn = min_thr (thresholds rule);
          mx = max_thr (thresholds rule);
          opt = optimal (thresholds rule)
      in if angle \<ge> mn \<and> angle \<le> mx then
           (let range = mx - mn;
                distanceFromOptimal = \<bar>angle - opt\<bar>;
                maxDistance = range / 2
            in if distanceFromOptimal \<le> maxDistance * 0.2 then 1.0
               else if distanceFromOptimal \<le> maxDistance * 0.4 then 0.9
               else if distanceFromOptimal \<le> maxDistance * 0.6 then 0.8
               else if distanceFromOptimal \<le> maxDistance * 0.8 then 0.7
               else 0.6)
         else if angle < mn then
           (let distance = mn - angle in max 0 (0.5 - (distance / 10)))
         else
           (let distance = angle - mx in max 0 (0.5 - (distance / 10))))"

text \<open>The two rule tables, one definition per entry.\<close>

definition squatRules_trunkAngle :: ExerciseRule where
  "squatRules_trunkAngle =
     \<lparr>name = ''Trunk Upright'', description = ''Keep your chest up and back straight'',
      thresholds = \<lparr>min_thr = 0, max_thr = 25, optimal = 10\<rparr>, weight = 0.3\<rparr>"

definition squatRules_hipAngle :: ExerciseRule where
  "squatRules_hipAngle =
     \<lparr>name = ''Hip Depth'', description = ''Go deep enough to break parallel'',
      thresholds = \<lparr>min_thr = 50, max_thr = 130, optimal = 90\<rparr>, weight = 0.4\<rparr>"

definition squatRules_kneeAngle :: ExerciseRule where
  "squatRules_kneeAngle =
     \<lparr>name = ''Knee Position'', description = ''Keep knees in line with toes'',
      thresholds = \<lparr>min_thr = 60, max_thr = 150, optimal = 110\<rparr>, weight = 0.3\<rparr>"

definition pullupRules_shoulderAngle :: ExerciseRule where
  "pullupRules_shoulderAngle =
     \<lparr>name = ''Shoulder Position'', description = ''Keep shoulders engaged and stable'',
      thresholds = \<lparr>min_thr = 0, max_thr = 30, optimal = 15\<rparr>, weight = 0.4\<rparr>"

definition pullupRules_elbowAngle :: ExerciseRule where
  "pullupRules_elbowAngle =
     \<lparr>name = ''Elbow Flexion'', description = ''Pull with your back, not just arms'',
      thresholds = \<lparr>min_thr = 60, max_thr = 120, optimal = 90\<rparr>, weight = 0.3\<rparr>"

definition pullupRules_chinOverBar :: ExerciseRule where
  "pullupRules_chinOverBar =
     \<lparr>name = ''Chin Over Bar'', description = ''Pull your chin above the bar'',
      thresholds = \<lparr>min_thr = 0, max_thr = 5, optimal = 2\<rparr>, weight = 0.3\<rparr>"

definition ruleTables :: "ExerciseRule list" where
  "ruleTables = [squatRules_trunkAngle, squatRules_hipAngle, squatRules_kneeAngle,
                 pullupRules_shoulderAngle, pullupRules_elbowAngle, pullupRules_chinOverBar]"

text \<open>What \<section>4.2 of the specification says of the score, in its own words: inside
  \<open>[min, max]\<close> the tier of the distance from \<open>optimal\<close> relative to half the range,
  outside it a linear decay from 0.5 in the degrees past the nearer boundary, floored
  at 0. This definition follows the specification, not the source.\<close>

definition halfRange :: "ExerciseRule \<Rightarrow> real" where
  "halfRange rule = (max_thr (thresholds rule) - min_thr (thresholds rule)) / 2"

definition degreesPastNearerBoundary :: "real \<Rightarrow> ExerciseRule \<Rightarrow> real" where
  "degreesPastNearerBoundary a rule =
     min \<bar>a - min_thr (thresholds rule)\<bar> \<bar>a - max_thr (thresholds rule)\<bar>"

definition specScore :: "real \<Rightarrow> ExerciseRule \<Rightarrow> real" where
  "specScore a rule =
     (if min_thr (thresholds rule) \<le> a \<and> a \<le> max_thr (thresholds rule) then
        (if \<bar>a - optimal (thresholds rule)\<bar> \<le> 0.2 * halfRange rule then 1.0
         else if \<bar>a - optimal (thresholds rule)\<bar> \<le> 0.4 * halfRange rule then 0.9
         else if \<bar>a - optimal (thresholds rule)\<bar> \<le> 0.6 * halfRange rule then 0.8
         else if \<bar>a - optimal (thresholds rule)\<bar> \<le> 0.8 * halfRange rule then 0.7
         else 0.6)
      else max 0 (0.5 - degreesPastNearerBoundary a rule / 10))"

definition wellFormedRule :: "ExerciseRule \<Rightarrow> bool" where
  "wellFormedRule rule =
     (min_thr (thresholds rule) \<le> optimal (thresholds rule)
      \<and> optimal (thresholds rule) \<le> max_thr (thresholds rule))"

section \<open>Session store (src/lib/store.ts)\<close>

datatype FeedbackType = Info | Warning | Error

text \<open>The fields \<open>type\<close> of \<open>Feedback\<close> and \<open>exercise\<close>, \<open>repCount\<close> of \<open>ExerciseSession\<close>
  are named \<open>fbType\<close>, \<open>sessionExercise\<close> and \<open>sessionRepCount\<close> here. A \<open>Date\<close> is its
  millisecond reading.\<close>

record Feedback =
  repNumber :: int
  message :: string
  fbType :: FeedbackType
  priority :: int

record ExerciseSession =
  sessionExercise :: string
  startTime :: int
  endTime :: "int option"
  sessionRepCount :: int
  averageScore :: real
  lastRepScore :: real
  flags :: "string list"
  feedback :: "Feedback list"

record User =
  email :: string
  injury :: "string option"
  recoveryTime :: "real option"
  fasterRecoveryPercent :: "real option"

record ExerciseSettings =
  skeletonVisible :: bool
  anglesHudVisible :: bool
  voiceEnabled :: bool
  privacyMode :: bool
  aiSummaryEnabled :: bool

record AppState =
  user :: "User option"
  exerciseSettings :: ExerciseSettings
  currentSession :: "ExerciseSession option"

definition initialAppState :: AppState where
  "initialAppState =
     \<lparr>user = None,
      exerciseSettings = \<lparr>skeletonVisible = True, anglesHudVisible = True,
                           voiceEnabled = True, privacyMode = False,
                           aiSummaryEnabled = False\<rparr>,
      currentSession = None\<rparr>"

definition startSession :: "string \<Rightarrow> int \<Rightarrow> AppState \<Rightarrow> AppState" where
  "startSession ex now state =
     state\<lparr>currentSession :=
              Some \<lparr>sessionExercise = ex, startTime = now, endTime = None,
                    sessionRepCount = 0, averageScore = 0, lastRepScore = 0,
                    flags = [], feedback = []\<rparr>\<rparr>"

definition clearFeedback :: "AppState \<Rightarrow> AppState" where
  "clearFeedback state =
     state\<lparr>currentSession :=
              (case currentSession state of
                 Some s \<Rightarrow> Some (s\<lparr>feedback := []\<rparr>)
               | None \<Rightarrow> None)\<rparr>"

definition endSession :: "int \<Rightarrow> AppState \<Rightarrow> AppState" where
  "endSession now state =
     state\<lparr>currentSession :=
              (case currentSession state of
                 Some s \<Rightarrow> Some (s\<lparr>endTime := Some now\<rparr>)
               | None \<Rightarrow> None)\<rparr>"

text \<open>\<open>addFeedback\<close>: \<open>priority\<close> has the default 1 and \<open>repNumber\<close> is optional, so both
  are options here. \<open>repNumber || repCount\<close> takes the session's count when the argument
  is absent or 0.\<close>

definition addFeedback ::
  "string \<Rightarrow> FeedbackType \<Rightarrow> int option \<Rightarrow> int option \<Rightarrow> AppState \<Rightarrow> AppState" where
  "addFeedback msg ty prio repNum state =
     (case currentSession state of
        None \<Rightarrow> state
      | Some s \<Rightarrow>
          (let p = (case prio of None \<Rightarrow> 1 | Some q \<Rightarrow> q);
               targetRepNumber = (case repNum of
                                    None \<Rightarrow> sessionRepCount s
                                  | Some r \<Rightarrow> if r = 0 then sessionRepCount s else r);
               isDuplicate = list_ex (\<lambda>fb. message fb = msg \<and> repNumber fb = targetRepNumber)
                                     (feedback s)
           in if isDuplicate then state
              else state\<lparr>currentSession :=
                     Some (s\<lparr>feedback := feedback s @
                               [\<lparr>repNumber = targetRepNumber, message = msg,
                                 fbType = ty, priority = p\<rparr>]\<rparr>)\<rparr>))"

definition incrementRep :: "AppState \<Rightarrow> AppState" where
  "incrementRep state =
     state\<lparr>currentSession :=
              (case currentSession state of
                 Some s \<Rightarrow> Some (s\<lparr>sessionRepCount := sessionRepCount s + 1\<rparr>)
               | None \<Rightarrow> None)\<rparr>"

definition updateScore :: "real \<Rightarrow> AppState \<Rightarrow> AppState" where
  "updateScore score state =
     (case currentSession state of
        None \<Rightarrow> state
      | Some s \<Rightarrow>
          (let currentScore = averageScore s;
               rc = sessionRepCount s;
               newAverage = (if rc = 0 then score
                             else (currentScore * real_of_int rc + score) / (real_of_int rc + 1))
           in state\<lparr>currentSession :=
                      Some (s\<lparr>averageScore := newAverage, lastRepScore := score\<rparr>)\<rparr>))"

text \<open>\<open>Array.from(new Set(xs))\<close> keeps the first occurrence of each element, in order.\<close>

definition addFlag :: "string \<Rightarrow> AppState \<Rightarrow> AppState" where
  "addFlag flag state =
     state\<lparr>currentSession :=
              (case currentSession state of
                 Some s \<Rightarrow> Some (s\<lparr>flags := rev (remdups (rev (flags s @ [flag])))\<rparr>)
               | None \<Rightarrow> None)\<rparr>"

definition clearSession :: "AppState \<Rightarrow> AppState" where
  "clearSession state = state\<lparr>currentSession := None\<rparr>"

text \<open>The number of stored entries for one (message, repNumber) pair, and the number the
  sink files a submission under.\<close>

definition storedCount :: "string \<Rightarrow> int \<Rightarrow> AppState \<Rightarrow> nat" where
  "storedCount msg rep state =
     (case currentSession state of
        None \<Rightarrow> 0
      | Some s \<Rightarrow> length (filter (\<lambda>fb. message fb = msg \<and> repNumber fb = rep) (feedback s)))"

definition targetRep :: "int option \<Rightarrow> AppState \<Rightarrow> int" where
  "targetRep repNum state =
     (case currentSession state of
        None \<Rightarrow> 0
      | Some s \<Rightarrow> (case repNum of
                     None \<Rightarrow> sessionRepCount s
                   | Some r \<Rightarrow> if r = 0 then sessionRepCount s else r))"

definition storedFeedback :: "AppState \<Rightarrow> Feedback list" where
  "storedFeedback state = (case currentSession state of None \<Rightarrow> [] | Some s \<Rightarrow> feedback s)"

definition feedbackKeys :: "AppState \<Rightarrow> (string \<times> int) list" where
  "feedbackKeys state = map (\<lambda>fb. (message fb, repNumber fb)) (storedFeedback state)"

section \<open>Recording page (src/app/record/page.tsx): the boundary between sessions\<close>

text \<open>Of the page, the state that frame analysis reads and writes: the static field
  \<open>AngleCalculator.lastAngles\<close>, the detector held in \<open>repDetectorRef\<close>, the local rep count
  and the store. Rendering, camera and voice are left out.\<close>

record RecordPage =
  calculatorLastAngles :: "JointAngles option"
  repDetectorRef :: "RepDetector option"
  pageRepCount :: nat
  appState :: AppState

definition initialRecordPage :: RecordPage where
  "initialRecordPage =
     \<lparr>calculatorLastAngles = None, repDetectorRef = None, pageRepCount = 0,
      appState = initialAppState\<rparr>"

definition exerciseName :: "Exercise \<Rightarrow> string" where
  "exerciseName ex = (case ex of Squat \<Rightarrow> ''squat'' | Pullup \<Rightarrow> ''pullup'')"

text \<open>The branch of \<open>toggleRecording\<close> that starts a recording: \<open>startSession\<close>, a new
  detector or \<open>reset()\<close> of the one held, \<open>setRepCount(0)\<close>.\<close>

definition toggleRecording_start :: "Exercise \<Rightarrow> int \<Rightarrow> RecordPage \<Rightarrow> RecordPage" where
  "toggleRecording_start ex now page =
     page\<lparr>appState := startSession (exerciseName ex) now (appState page),
          repDetectorRef := (case repDetectorRef page of
                               None \<Rightarrow> Some (newRepDetector ex)
                             | Some d \<Rightarrow> Some (reset d)),
          pageRepCount := 0\<rparr>"

text \<open>The branch that stops it: \<open>endSession\<close>.\<close>

definition toggleRecording_stop :: "int \<Rightarrow> RecordPage \<Rightarrow> RecordPage" where
  "toggleRecording_stop now page = page\<lparr>appState := endSession now (appState page)\<rparr>"

text \<open>The first step of \<open>handlePoseResults\<close>: nothing on an empty landmark list, else
  \<open>AngleCalculator.calculateAngles\<close> on the static field.\<close>

definition handlePoseResults_angles ::
  "PoseLandmark list \<Rightarrow> RecordPage \<Rightarrow> JointAngles option \<times> RecordPage" where
  "handlePoseResults_angles poseLandmarks page =
     (if length poseLandmarks = 0 then (None, page)
      else let (angles, memory) = calculateAngles poseLandmarks (calculatorLastAngles page)
           in (Some angles, page\<lparr>calculatorLastAngles := memory\<rparr>))"

section \<open>Properties of angles and of the smoothing memory\<close>

definition anglesInRange :: "JointAngles \<Rightarrow> bool" where
  "anglesInRange a =
     (0 \<le> trunkAngle a \<and> trunkAngle a \<le> 90
      \<and> 0 \<le> hipAngle a \<and> hipAngle a \<le> 180
      \<and> 0 \<le> kneeAngle a \<and> kneeAngle a \<le> 180
      \<and> 0 \<le> shoulderAngle a \<and> shoulderAngle a \<le> 180
      \<and> 0 \<le> elbowAngle a \<and> elbowAngle a \<le> 180
      \<and> 0 \<le> ankleAngle a \<and> ankleAngle a \<le> 180)"

definition memoryInRange :: "JointAngles option \<Rightarrow> bool" where
  "memoryInRange m = (case m of None \<Rightarrow> True | Some a \<Rightarrow> anglesInRange a)"

section \<open>Concrete inputs\<close>

definition hiddenLandmark :: PoseLandmark where
  "hiddenLandmark = \<lparr>x = 0, y = 0, z = 0, visibility = None\<rparr>"

definition seenLandmark :: "real \<Rightarrow> real \<Rightarrow> PoseLandmark" where
  "seenLandmark px py = \<lparr>x = px, y = py, z = 0, visibility = Some 1\<rparr>"

text \<open>A frame of 33 landmarks none of which is visible, and one where the left hip (23),
  the left shoulder (11) and the left knee (25) are: the trunk lies horizontal and the
  thigh is at a right angle to it.\<close>

definition hiddenFrame :: "PoseLandmark list" where
  "hiddenFrame = replicate 33 hiddenLandmark"

definition leaningFrame :: "PoseLandmark list" where
  "leaningFrame = (replicate 33 hiddenLandmark)[23 := seenLandmark 0 0, 11 := seenLandmark 1 0,
      25 := seenLandmark 0 1]"

definition angles_of :: "real \<Rightarrow> real \<Rightarrow> JointAngles" where
  "angles_of h k = \<lparr>trunkAngle = 0, hipAngle = h, kneeAngle = k,
      shoulderAngle = 0, elbowAngle = 0, ankleAngle = 0\<rparr>"

text \<open>\<open>n\<close> calls 50 ms apart, the first at \<open>t\<close>, all with the same angles.\<close>

fun frames_every_50 ::
  "nat \<Rightarrow> int \<Rightarrow> JointAngles \<Rightarrow> (int \<times> JointAngles \<times> PoseLandmark list) list" where
  "frames_every_50 0 t a = []"
| "frames_every_50 (Suc n) t a = (t, a, []) # frames_every_50 n (t + 50) a"

text \<open>Calibration while standing (hip 170, knee 175): 25 calls from 1000 ms to 2200 ms.
  It leaves the default squat depth \<open>max 60 (170 - 80) = 90\<close>, so the thresholds are
  standing 154, middle 130, squat 106.\<close>

definition standing_calibration :: "(int \<times> JointAngles \<times> PoseLandmark list) list" where
  "standing_calibration = frames_every_50 25 1000 (angles_of 170 175)"

definition calibrated_standing :: RepDetector where
  "calibrated_standing =
     \<lparr>exercise = Squat, currentState = IDLE, repCount = 0, lastRepTime = 0, repStartTime = 1000,
      repTimes = [], lastAngles = None, stateConfidence = 0, consecutiveFrames = 0,
      lastUpdateTime = 2200, isCalibrated = True, standingHipAngle = 170,
      standingKneeAngle = 175, squatDepthHipAngle = 90, calibrationFrames = 25\<rparr>"

text \<open>The shortest cycle the debounce and the throttle allow: down at 2250 ms, at depth at
  2450 ms, rising at 2650 ms, standing again at 2700 ms, 450 ms after it began.\<close>

definition quick_cycle :: "(int \<times> JointAngles \<times> PoseLandmark list) list" where
  "quick_cycle = [(2250, angles_of 100 100, []), (2450, angles_of 70 70, []),
                  (2650, angles_of 170 175, []), (2700, angles_of 170 175, [])]"

text \<open>A cycle of 2400 ms that begins 29 s after calibration began, and two more calls
  standing.\<close>

definition late_cycle :: "(int \<times> JointAngles \<times> PoseLandmark list) list" where
  "late_cycle = [(30000, angles_of 100 100, []), (31200, angles_of 70 70, []),
                 (32000, angles_of 140 140, []), (32400, angles_of 170 175, []),
                 (32450, angles_of 170 175, []), (32650, angles_of 170 175, [])]"

text \<open>After \<open>reset()\<close> at depth (the last processed call was at 2450 ms): a first call
  20 ms later, 24 more standing, and one going down at 3720 ms.\<close>

definition mid_rep_calls :: "(int \<times> JointAngles \<times> PoseLandmark list) list" where
  "mid_rep_calls = standing_calibration @ take 2 quick_cycle"

definition calls_after_reset :: "(int \<times> JointAngles \<times> PoseLandmark list) list" where
  "calls_after_reset = frames_every_50 25 2470 (angles_of 170 175) @ [(3720, angles_of 100 100, [])]"

definition sessionAtRepOne :: AppState where
  "sessionAtRepOne = incrementRep (startSession ''squat'' 0 initialAppState)"

section \<open>Angle calculator: ranges, smoothing, short input\<close>

lemma between_vectors_range:
  "0 \<le> calculateAngleBetweenVectors v1 v2 \<and> calculateAngleBetweenVectors v1 v2 \<le> 180"
  by (simp add: calculateAngleBetweenVectors_def Let_def)

lemma trunk_range: "0 \<le> calculateTrunkAngle ls \<and> calculateTrunkAngle ls \<le> 90"
  by (simp add: calculateTrunkAngle_def Let_def)

lemma rawAngles_in_range: "anglesInRange (rawAngles ls)"
  using between_vectors_range trunk_range
  by (simp add: anglesInRange_def rawAngles_def calculateHipAngle_def calculateKneeAngle_def
      calculateShoulderAngle_def calculateElbowAngle_def calculateAnkleAngle_def Let_def)

lemma smoothAngle_between:
  assumes "lo \<le> a" "a \<le> hi" "lo \<le> b" "b \<le> hi"
  shows "lo \<le> smoothAngle a b \<and> smoothAngle a b \<le> hi"
  using assms unfolding smoothAngle_def SMOOTHING_FACTOR_def by (auto simp: algebra_simps)

lemma smoothAll_in_range:
  assumes "anglesInRange raw" "anglesInRange prev"
  shows "anglesInRange (smoothAll raw prev)"
proof -
  have t: "0 \<le> smoothAngle (trunkAngle raw) (trunkAngle prev)
         \<and> smoothAngle (trunkAngle raw) (trunkAngle prev) \<le> 90"
    using assms by (intro smoothAngle_between) (simp_all add: anglesInRange_def)
  have h: "0 \<le> smoothAngle (hipAngle raw) (hipAngle prev)
         \<and> smoothAngle (hipAngle raw) (hipAngle prev) \<le> 180"
    using assms by (intro smoothAngle_between) (simp_all add: anglesInRange_def)
  have k: "0 \<le> smoothAngle (kneeAngle raw) (kneeAngle prev)
         \<and> smoothAngle (kneeAngle raw) (kneeAngle prev) \<le> 180"
    using assms by (intro smoothAngle_between) (simp_all add: anglesInRange_def)
  have s: "0 \<le> smoothAngle (shoulderAngle raw) (shoulderAngle prev)
         \<and> smoothAngle (shoulderAngle raw) (shoulderAngle prev) \<le> 180"
    using assms by (intro smoothAngle_between) (simp_all add: anglesInRange_def)
  have e: "0 \<le> smoothAngle (elbowAngle raw) (elbowAngle prev)
         \<and> smoothAngle (elbowAngle raw) (elbowAngle prev) \<le> 180"
    using assms by (intro smoothAngle_between) (simp_all add: anglesInRange_def)
  have a: "0 \<le> smoothAngle (ankleAngle raw) (ankleAngle prev)
         \<and> smoothAngle (ankleAngle raw) (ankleAngle prev) \<le> 180"
    using assms by (intro smoothAngle_between) (simp_all add: anglesInRange_def)
  from t h k s e a show ?thesis
    by (simp add: anglesInRange_def smoothAll_def)
qed

lemma rawAngles_hiddenFrame: "rawAngles hiddenFrame = zeroAngles"
  by (simp add: rawAngles_def zeroAngles_def hiddenFrame_def hiddenLandmark_def
      calculateTrunkAngle_def calculateHipAngle_def calculateKneeAngle_def
      calculateShoulderAngle_def calculateElbowAngle_def calculateAnkleAngle_def
      isLandmarkVisible_def Let_def)

lemma rawAngles_leaningFrame:
  "rawAngles leaningFrame = zeroAngles\<lparr>trunkAngle := 90, hipAngle := 90\<rparr>"
  by (simp add: rawAngles_def zeroAngles_def leaningFrame_def hiddenLandmark_def seenLandmark_def
      calculateTrunkAngle_def calculateHipAngle_def calculateKneeAngle_def
      calculateShoulderAngle_def calculateElbowAngle_def calculateAnkleAngle_def
      calculateAngleBetweenVectors_def isLandmarkVisible_def Let_def)

text \<open>Claim C8. For every landmark sequence with fewer than 33 entries, whatever the
  smoothing memory holds, \<open>calculateAngles\<close> returns 0 for each of the six angles (trunk,
  hip, knee, shoulder, elbow, ankle).\<close>

theorem short_input_all_zero:
  assumes "length landmarks < 33"
  shows "trunkAngle (fst (calculateAngles landmarks memory)) = 0
       \<and> hipAngle (fst (calculateAngles landmarks memory)) = 0
       \<and> kneeAngle (fst (calculateAngles landmarks memory)) = 0
       \<and> shoulderAngle (fst (calculateAngles landmarks memory)) = 0
       \<and> elbowAngle (fst (calculateAngles landmarks memory)) = 0
       \<and> ankleAngle (fst (calculateAngles landmarks memory)) = 0"
  using assms by (simp add: calculateAngles_def zeroAngles_def)

theorem short_input_all_zero_witness:
  "length (replicate 5 hiddenLandmark) < 33
   \<and> fst (calculateAngles (replicate 5 hiddenLandmark) (Some (rawAngles leaningFrame))) = zeroAngles"
  using short_input_all_zero [of "replicate 5 hiddenLandmark" "Some (rawAngles leaningFrame)"]
  by (simp add: zeroAngles_def JointAngles.equality)

text \<open>Claim C9. For every landmark sequence of at least 33 entries and every smoothing
  memory whose stored angles are in range, every angle \<open>calculateAngles\<close> returns lies in
  [0, 180] and the trunk angle in [0, 90]; the memory it leaves is in range again.\<close>

theorem angles_in_range:
  assumes "33 \<le> length landmarks" and "memoryInRange memory"
  shows "anglesInRange (fst (calculateAngles landmarks memory))
       \<and> memoryInRange (snd (calculateAngles landmarks memory))"
proof (cases memory)
  case None
  then show ?thesis
    using assms(1) rawAngles_in_range [of landmarks]
    by (simp add: calculateAngles_def memoryInRange_def Let_def)
next
  case (Some prev)
  with assms(2) have "anglesInRange prev" by (simp add: memoryInRange_def)
  then have "anglesInRange (smoothAll (rawAngles landmarks) prev)"
    using rawAngles_in_range smoothAll_in_range by blast
  with Some assms(1) show ?thesis
    by (simp add: calculateAngles_def memoryInRange_def Let_def)
qed

theorem angles_in_range_witness:
  "33 \<le> length leaningFrame \<and> memoryInRange (Some zeroAngles)
   \<and> trunkAngle (fst (calculateAngles leaningFrame (Some zeroAngles))) = 18
   \<and> anglesInRange (fst (calculateAngles leaningFrame (Some zeroAngles)))"
proof -
  have len: "33 \<le> length leaningFrame" by (simp add: leaningFrame_def)
  have mem: "memoryInRange (Some zeroAngles)"
    by (simp add: memoryInRange_def anglesInRange_def zeroAngles_def)
  have "trunkAngle (fst (calculateAngles leaningFrame (Some zeroAngles))) = 18"
    using len
    by (simp add: calculateAngles_def rawAngles_leaningFrame smoothAll_def smoothAngle_def
        SMOOTHING_FACTOR_def zeroAngles_def Let_def)
  then show ?thesis using len mem angles_in_range [OF len mem] by simp
qed

text \<open>Claim C7. Two consecutive calls on a fresh smoothing memory, with raw angles \<open>a0\<close>
  and \<open>a1\<close>: the first returns \<open>a0\<close> as it is, the second \<open>0.8 * a0 + 0.2 * a1\<close>, for each
  of the six joint angles.\<close>

theorem two_calls_smoothing:
  assumes "33 \<le> length l0" and "33 \<le> length l1"
  shows "fst (calculateAngles l0 None) = rawAngles l0
       \<and> (let a0 = rawAngles l0; a1 = rawAngles l1;
               second = fst (calculateAngles l1 (snd (calculateAngles l0 None)))
           in trunkAngle second = 0.8 * trunkAngle a0 + 0.2 * trunkAngle a1
            \<and> hipAngle second = 0.8 * hipAngle a0 + 0.2 * hipAngle a1
            \<and> kneeAngle second = 0.8 * kneeAngle a0 + 0.2 * kneeAngle a1
            \<and> shoulderAngle second = 0.8 * shoulderAngle a0 + 0.2 * shoulderAngle a1
            \<and> elbowAngle second = 0.8 * elbowAngle a0 + 0.2 * elbowAngle a1
            \<and> ankleAngle second = 0.8 * ankleAngle a0 + 0.2 * ankleAngle a1)"
  using assms
  by (simp add: calculateAngles_def smoothAll_def smoothAngle_def SMOOTHING_FACTOR_def Let_def)

theorem two_calls_smoothing_witness:
  "33 \<le> length leaningFrame \<and> 33 \<le> length hiddenFrame
   \<and> trunkAngle (fst (calculateAngles leaningFrame None)) = 90
   \<and> trunkAngle (fst (calculateAngles hiddenFrame (snd (calculateAngles leaningFrame None)))) = 72"
proof -
  have l0: "33 \<le> length leaningFrame" by (simp add: leaningFrame_def)
  have l1: "33 \<le> length hiddenFrame" by (simp add: hiddenFrame_def)
  show ?thesis
    using l0 l1 two_calls_smoothing [OF l0 l1]
    by (simp add: rawAngles_leaningFrame rawAngles_hiddenFrame zeroAngles_def Let_def)
qed

text \<open>Claim C10. A call with fewer than 33 landmarks leaves the smoothing memory as it
  was: the all-zero result is not written into it, and the next call with a full
  sequence smooths against the angles of the last full frame.\<close>

theorem short_input_keeps_memory:
  assumes "length landmarks < 33"
  shows "snd (calculateAngles landmarks memory) = memory
       \<and> (33 \<le> length full \<longrightarrow>
            fst (calculateAngles full (snd (calculateAngles landmarks (Some prev))))
              = smoothAll (rawAngles full) prev)"
  using assms by (simp add: calculateAngles_def Let_def)

theorem short_input_keeps_memory_witness:
  "length (replicate 5 hiddenLandmark) < 33 \<and> 33 \<le> length hiddenFrame
   \<and> snd (calculateAngles (replicate 5 hiddenLandmark) (Some (rawAngles leaningFrame)))
       = Some (rawAngles leaningFrame)
   \<and> trunkAngle (fst (calculateAngles hiddenFrame
        (snd (calculateAngles (replicate 5 hiddenLandmark) (Some (rawAngles leaningFrame)))))) = 72"
proof -
  let ?short = "replicate 5 hiddenLandmark"
  let ?prev = "rawAngles leaningFrame"
  have short: "length ?short < 33" by simp
  have l1: "33 \<le> length hiddenFrame" by (simp add: hiddenFrame_def)
  have kept: "snd (calculateAngles ?short (Some ?prev)) = Some ?prev"
    using short_input_keeps_memory [OF short, of "Some ?prev" hiddenFrame ?prev] by blast
  have "fst (calculateAngles hiddenFrame (snd (calculateAngles ?short (Some ?prev))))
          = smoothAll (rawAngles hiddenFrame) ?prev"
    using short_input_keeps_memory [OF short, of "Some ?prev" hiddenFrame ?prev] l1 by blast
  then have "trunkAngle (fst (calculateAngles hiddenFrame
               (snd (calculateAngles ?short (Some ?prev))))) = 72"
    by (simp add: rawAngles_leaningFrame rawAngles_hiddenFrame zeroAngles_def
        smoothAll_def smoothAngle_def SMOOTHING_FACTOR_def)
  with short l1 kept show ?thesis by blast
qed

section \<open>Rules engine: the score curve\<close>

lemma evaluateAngle_inside:
  assumes "min_thr (thresholds rule) \<le> a" and "a \<le> max_thr (thresholds rule)"
  shows "evaluateAngle a rule = specScore a rule"
  using assms by (simp add: evaluateAngle_def specScore_def halfRange_def Let_def)

lemma evaluateAngle_below:
  assumes "min_thr (thresholds rule) \<le> max_thr (thresholds rule)"
    and "a < min_thr (thresholds rule)"
  shows "evaluateAngle a rule = specScore a rule"
proof -
  have "degreesPastNearerBoundary a rule = min_thr (thresholds rule) - a"
    using assms by (simp add: degreesPastNearerBoundary_def min_def)
  then show ?thesis
    using assms by (simp add: evaluateAngle_def specScore_def Let_def)
qed

lemma evaluateAngle_above:
  assumes "min_thr (thresholds rule) \<le> max_thr (thresholds rule)"
    and "max_thr (thresholds rule) < a"
  shows "evaluateAngle a rule = specScore a rule"
proof -
  have "degreesPastNearerBoundary a rule = a - max_thr (thresholds rule)"
    using assms by (simp add: degreesPastNearerBoundary_def min_def)
  then show ?thesis
    using assms by (simp add: evaluateAngle_def specScore_def Let_def)
qed

lemma evaluateAngle_at_optimal:
  assumes "wellFormedRule rule"
  shows "evaluateAngle (optimal (thresholds rule)) rule = 1"
  using assms by (simp add: evaluateAngle_def wellFormedRule_def Let_def)

lemma evaluateAngle_ten_beyond_max:
  assumes "min_thr (thresholds rule) \<le> max_thr (thresholds rule)"
  shows "evaluateAngle (max_thr (thresholds rule) + 10) rule = 0"
  using assms by (simp add: evaluateAngle_def Let_def)

lemma ruleTables_wellFormed: "list_all wellFormedRule ruleTables"
  by (simp add: ruleTables_def wellFormedRule_def squatRules_trunkAngle_def
      squatRules_hipAngle_def squatRules_kneeAngle_def pullupRules_shoulderAngle_def
      pullupRules_elbowAngle_def pullupRules_chinOverBar_def)

text \<open>Claim C3. For a rule with \<open>min \<le> optimal \<le> max\<close> (as every rule of the two tables
  is) and every angle, \<open>evaluateAngle\<close> returns the score the specification describes:
  inside \<open>[min, max]\<close> the tier 1.0, 0.9, 0.8, 0.7 or 0.6 of the distance from optimal
  relative to half the range, outside \<open>max 0 (0.5 - d / 10)\<close> for \<open>d\<close> degrees past the
  nearer boundary. An angle at optimal scores 1, an angle 10 degrees beyond max scores 0.\<close>

theorem evaluateAngle_score_curve:
  assumes "wellFormedRule rule"
  shows "evaluateAngle a rule = specScore a rule
       \<and> evaluateAngle (optimal (thresholds rule)) rule = 1
       \<and> evaluateAngle (max_thr (thresholds rule) + 10) rule = 0"
proof -
  from assms have le: "min_thr (thresholds rule) \<le> max_thr (thresholds rule)"
    by (simp add: wellFormedRule_def)
  consider "a < min_thr (thresholds rule)"
    | "min_thr (thresholds rule) \<le> a \<and> a \<le> max_thr (thresholds rule)"
    | "max_thr (thresholds rule) < a"
    by linarith
  then have "evaluateAngle a rule = specScore a rule"
  proof cases
    case 1 with le show ?thesis by (rule evaluateAngle_below)
  next
    case 2 then show ?thesis by (simp add: evaluateAngle_inside)
  next
    case 3 with le show ?thesis by (rule evaluateAngle_above)
  qed
  with assms le show ?thesis
    by (simp add: evaluateAngle_at_optimal evaluateAngle_ten_beyond_max)
qed

theorem evaluateAngle_score_curve_witness:
  "wellFormedRule squatRules_hipAngle
   \<and> evaluateAngle 110 squatRules_hipAngle = 0.8
   \<and> evaluateAngle 45 squatRules_hipAngle = 0
   \<and> evaluateAngle 132 squatRules_hipAngle = 0.3
   \<and> evaluateAngle 90 squatRules_hipAngle = 1
   \<and> evaluateAngle 140 squatRules_hipAngle = 0"
proof -
  have wf: "wellFormedRule squatRules_hipAngle"
    by (simp add: wellFormedRule_def squatRules_hipAngle_def)
  have s1: "specScore 110 squatRules_hipAngle = 0.8"
    by (simp add: specScore_def halfRange_def squatRules_hipAngle_def)
  have s2: "specScore 45 squatRules_hipAngle = 0"
    by (simp add: specScore_def degreesPastNearerBoundary_def squatRules_hipAngle_def)
  have s3: "specScore 132 squatRules_hipAngle = 0.3"
    by (simp add: specScore_def degreesPastNearerBoundary_def squatRules_hipAngle_def)
  have o: "optimal (thresholds squatRules_hipAngle) = 90"
    and m: "max_thr (thresholds squatRules_hipAngle) + 10 = 140"
    by (simp_all add: squatRules_hipAngle_def)
  from evaluateAngle_score_curve [OF wf, of 110] evaluateAngle_score_curve [OF wf, of 45]
    evaluateAngle_score_curve [OF wf, of 132] wf s1 s2 s3 o m
  show ?thesis by simp
qed

section \<open>Session store: duplicate feedback\<close>

lemma storedFeedback_addFeedback:
  assumes "currentSession state = Some s"
  shows "storedFeedback (addFeedback msg ty prio repNum state) =
           (if (msg, targetRep repNum state) \<in> set (feedbackKeys state)
            then storedFeedback state
            else storedFeedback state @
                   [\<lparr>repNumber = targetRep repNum state, message = msg, fbType = ty,
                     priority = (case prio of None \<Rightarrow> 1 | Some q \<Rightarrow> q)\<rparr>])"
  using assms
  by (auto simp: addFeedback_def storedFeedback_def feedbackKeys_def targetRep_def Let_def
      list_ex_iff image_iff split: option.splits)

lemma currentSession_addFeedback:
  "currentSession (addFeedback msg ty prio repNum state) = None \<longleftrightarrow> currentSession state = None"
  by (simp add: addFeedback_def Let_def split: option.splits)

lemma targetRep_addFeedback:
  "targetRep r (addFeedback msg ty prio repNum state) = targetRep r state"
  by (simp add: addFeedback_def targetRep_def Let_def split: option.splits)

lemma addFeedback_duplicate:
  assumes "(msg, targetRep repNum state) \<in> set (feedbackKeys state)"
  shows "addFeedback msg ty prio repNum state = state"
  using assms
  by (auto simp: addFeedback_def storedFeedback_def feedbackKeys_def targetRep_def Let_def
      list_ex_iff image_iff split: option.splits)

lemma storedCount_keys:
  "storedCount msg rep state = count_list (feedbackKeys state) (msg, rep)"
proof -
  have cnt: "length (filter (\<lambda>fb. message fb = msg \<and> repNumber fb = rep) fbs)
          = count_list (map (\<lambda>fb. (message fb, repNumber fb)) fbs) (msg, rep)" for fbs
    by (induction fbs) auto
  show ?thesis
    by (cases "currentSession state")
       (simp_all add: storedCount_def feedbackKeys_def storedFeedback_def cnt)
qed

lemma count_list_distinct:
  "distinct ks \<Longrightarrow> count_list ks k = (if k \<in> set ks then 1 else 0)"
  by (induction ks) auto

lemma feedbackKeys_addFeedback:
  assumes "currentSession state \<noteq> None"
  shows "feedbackKeys (addFeedback msg ty prio repNum state) =
           (if (msg, targetRep repNum state) \<in> set (feedbackKeys state)
            then feedbackKeys state
            else feedbackKeys state @ [(msg, targetRep repNum state)])"
proof -
  from assms obtain s where "currentSession state = Some s" by auto
  from storedFeedback_addFeedback [OF this, of msg ty prio repNum]
  show ?thesis by (simp add: feedbackKeys_def)
qed

lemma distinct_addFeedback:
  assumes "distinct (feedbackKeys state)"
  shows "distinct (feedbackKeys (addFeedback msg ty prio repNum state))"
proof (cases "currentSession state")
  case None
  then show ?thesis using assms by (simp add: addFeedback_def)
next
  case (Some s)
  then show ?thesis using assms by (simp add: feedbackKeys_addFeedback)
qed

lemma distinct_startSession: "distinct (feedbackKeys (startSession ex now state))"
  by (simp add: feedbackKeys_def storedFeedback_def startSession_def)

lemma feedbackKeys_other_ops:
  "feedbackKeys (incrementRep state) = feedbackKeys state"
  "feedbackKeys (updateScore score state) = feedbackKeys state"
  "feedbackKeys (addFlag flag state) = feedbackKeys state"
  "feedbackKeys (endSession now state) = feedbackKeys state"
  "feedbackKeys (clearFeedback state) = []"
  "feedbackKeys (clearSession state) = []"
  by (simp_all add: feedbackKeys_def storedFeedback_def incrementRep_def updateScore_def
      addFlag_def endSession_def clearFeedback_def clearSession_def Let_def
      split: option.splits)

text \<open>Claim C4. In an active session whose stored feedback holds no pair twice (as after
  \<open>startSession\<close> and every operation of the store), submitting the same (message,
  repNumber) twice stores exactly one entry for it: the second submission changes
  nothing. An accepted entry is appended after all entries stored before it, so the
  stored entries are in insertion order.\<close>

theorem addFeedback_twice_one_entry:
  assumes "currentSession state \<noteq> None" and "distinct (feedbackKeys state)"
  shows "addFeedback msg ty2 prio2 repNum (addFeedback msg ty1 prio1 repNum state)
           = addFeedback msg ty1 prio1 repNum state
       \<and> storedCount msg (targetRep repNum state)
            (addFeedback msg ty2 prio2 repNum (addFeedback msg ty1 prio1 repNum state)) = 1
       \<and> (storedFeedback (addFeedback msg ty1 prio1 repNum state) = storedFeedback state
          \<or> (\<exists>fb. storedFeedback (addFeedback msg ty1 prio1 repNum state)
                     = storedFeedback state @ [fb]
                   \<and> message fb = msg \<and> repNumber fb = targetRep repNum state))"
proof -
  let ?once = "addFeedback msg ty1 prio1 repNum state"
  let ?key = "(msg, targetRep repNum state)"
  from assms(1) obtain s where s: "currentSession state = Some s" by auto
  have stored: "?key \<in> set (feedbackKeys ?once)"
    using assms(1) by (simp add: feedbackKeys_addFeedback)
  have "targetRep repNum ?once = targetRep repNum state"
    by (rule targetRep_addFeedback)
  with stored have twice: "addFeedback msg ty2 prio2 repNum ?once = ?once"
    by (simp add: addFeedback_duplicate)
  have "distinct (feedbackKeys ?once)"
    using assms(2) by (rule distinct_addFeedback)
  with stored have one: "storedCount msg (targetRep repNum state) ?once = 1"
    by (simp add: storedCount_keys count_list_distinct)
  have order: "storedFeedback ?once = storedFeedback state
          \<or> (\<exists>fb. storedFeedback ?once = storedFeedback state @ [fb]
                   \<and> message fb = msg \<and> repNumber fb = targetRep repNum state)"
    using storedFeedback_addFeedback [OF s, of msg ty1 prio1 repNum] by auto
  from twice one order show ?thesis by simp
qed

theorem addFeedback_twice_one_entry_witness:
  "currentSession sessionAtRepOne \<noteq> None \<and> distinct (feedbackKeys sessionAtRepOne)
   \<and> storedFeedback (addFeedback ''Go deeper'' Error (Some 2) (Some 1)
        (addFeedback ''Go deeper'' Warning (Some 1) (Some 1) sessionAtRepOne))
       = [\<lparr>repNumber = 1, message = ''Go deeper'', fbType = Warning, priority = 1\<rparr>]"
proof -
  have act: "currentSession sessionAtRepOne \<noteq> None"
    by (simp add: sessionAtRepOne_def incrementRep_def startSession_def)
  have dis: "distinct (feedbackKeys sessionAtRepOne)"
    by (simp add: sessionAtRepOne_def feedbackKeys_def storedFeedback_def incrementRep_def
        startSession_def)
  have once: "storedFeedback (addFeedback ''Go deeper'' Warning (Some 1) (Some 1) sessionAtRepOne)
       = [\<lparr>repNumber = 1, message = ''Go deeper'', fbType = Warning, priority = 1\<rparr>]"
    by (simp add: sessionAtRepOne_def addFeedback_def storedFeedback_def incrementRep_def
        startSession_def initialAppState_def Let_def)
  from addFeedback_twice_one_entry [OF act dis, of "''Go deeper''" Error "Some 2" "Some 1" Warning "Some 1"]
  have "addFeedback ''Go deeper'' Error (Some 2) (Some 1)
          (addFeedback ''Go deeper'' Warning (Some 1) (Some 1) sessionAtRepOne)
        = addFeedback ''Go deeper'' Warning (Some 1) (Some 1) sessionAtRepOne"
    by blast
  with act dis once show ?thesis by simp
qed

section \<open>Repetition detector: evaluated traces\<close>

lemmas detector_defs = update_def calibrate_def updateSquatState_def updatePullupState_def
  checkForStuckState_def updateConfidence_def completeRep_def transitionTo_def
  getCurrentDetection_def calculateAverageTempo_def setDynamicThresholds_def
  UPDATE_THROTTLE_def CALIBRATION_FRAMES_NEEDED_def MIN_REP_DURATION_def MAX_REP_DURATION_def
  angles_of_def Let_def

lemma updates_append:
  "updates (xs @ ys) d =
     (fst (updates xs d) @ fst (updates ys (snd (updates xs d))),
      snd (updates ys (snd (updates xs d))))"
  by (induction xs arbitrary: d) (auto simp: split_beta Let_def)

lemma calibration_leaves:
  "snd (updates standing_calibration (newRepDetector Squat)) = calibrated_standing"
  by (simp add: standing_calibration_def eval_nat_numeral newRepDetector_def
      calibrated_standing_def detector_defs)

lemma quick_cycle_detections:
  "fst (updates quick_cycle calibrated_standing) =
     [\<lparr>out_state = STARTING, out_repCount = 0, out_confidence = 1/15, out_lastRepTime = 2250, out_averageTempo = 0\<rparr>,
      \<lparr>out_state = PEAK, out_repCount = 0, out_confidence = 1/15, out_lastRepTime = 2450, out_averageTempo = 0\<rparr>,
      \<lparr>out_state = ENDING, out_repCount = 0, out_confidence = 1/15, out_lastRepTime = 2650, out_averageTempo = 0\<rparr>,
      \<lparr>out_state = COMPLETE, out_repCount = 1, out_confidence = 2/15, out_lastRepTime = 2650, out_averageTempo = 1700\<rparr>]"
  by (simp add: quick_cycle_def calibrated_standing_def detector_defs)

lemma late_cycle_detections:
  "map (\<lambda>det. (out_state det, out_repCount det)) (fst (updates late_cycle calibrated_standing)) =
     [(STARTING, 0), (PEAK, 0), (ENDING, 0), (ENDING, 0), (ENDING, 0), (ENDING, 0)]"
  by (simp add: late_cycle_def calibrated_standing_def detector_defs)

lemma mid_rep_state:
  "snd (updates mid_rep_calls (newRepDetector Squat)) =
     calibrated_standing\<lparr>currentState := PEAK, lastRepTime := 2450, lastUpdateTime := 2450,
        consecutiveFrames := 1, stateConfidence := 1/15\<rparr>"
  by (simp add: mid_rep_calls_def updates_append calibration_leaves)
     (simp add: quick_cycle_def calibrated_standing_def detector_defs)

lemma after_reset_last:
  "last (fst (updates calls_after_reset (reset (snd (updates mid_rep_calls (newRepDetector Squat))))))
     = \<lparr>out_state = IDLE, out_repCount = 0, out_confidence = 0, out_lastRepTime = 0, out_averageTempo = 0\<rparr>"
  by (simp add: mid_rep_state)
     (simp add: calls_after_reset_def eval_nat_numeral reset_def calibrated_standing_def detector_defs)

lemma fresh_last:
  "last (fst (updates calls_after_reset (newRepDetector Squat)))
     = \<lparr>out_state = STARTING, out_repCount = 0, out_confidence = 1/15, out_lastRepTime = 3720, out_averageTempo = 0\<rparr>"
  by (simp add: calls_after_reset_def eval_nat_numeral newRepDetector_def detector_defs)

lemma reset_is_new_but_clock:
  "reset d = (newRepDetector (exercise d))\<lparr>lastUpdateTime := lastUpdateTime d\<rparr>"
  by (simp add: reset_def newRepDetector_def)

lemma calibration_detections:
  "fst (updates standing_calibration (newRepDetector Squat)) =
     replicate 25 \<lparr>out_state = IDLE, out_repCount = 0, out_confidence = 0,
                   out_lastRepTime = 0, out_averageTempo = 0\<rparr>"
  by (simp add: standing_calibration_def eval_nat_numeral newRepDetector_def detector_defs)

lemma completeRep_outside_window:
  assumes "timestamp - repStartTime d < MIN_REP_DURATION
           \<or> MAX_REP_DURATION < timestamp - repStartTime d"
  shows "completeRep timestamp d = d"
  using assms by (auto simp: completeRep_def Let_def)

lemma calibrate_keeps_repStartTime:
  assumes "calibrationFrames d \<noteq> 0"
  shows "repStartTime (calibrate angles now d) = repStartTime d"
  using assms by (simp add: calibrate_def setDynamicThresholds_def Let_def)

lemma repStartTime_transitionTo:
  "repStartTime (transitionTo newState timestamp d) = repStartTime d"
  by (simp add: transitionTo_def Let_def)

lemma repStartTime_completeRep:
  "repStartTime (completeRep timestamp d) = repStartTime d"
  by (simp add: completeRep_def Let_def)

lemma repStartTime_updateSquatState:
  "repStartTime (updateSquatState angles now d) = repStartTime d"
  by (cases "currentState d")
     (simp_all add: updateSquatState_def repStartTime_transitionTo repStartTime_completeRep
        Let_def)

lemma repStartTime_checkForStuckState:
  "repStartTime (checkForStuckState now d) = repStartTime d"
  by (simp add: checkForStuckState_def repStartTime_completeRep Let_def)

lemma repStartTime_after_calibration:
  assumes "isCalibrated d"
  shows "repStartTime (snd (update angles landmarks now d)) = repStartTime d"
  using assms
  by (simp add: update_def updatePullupState_def updateConfidence_def
      repStartTime_updateSquatState repStartTime_checkForStuckState Let_def)

lemma reset_agrees_when_call_processed:
  assumes "UPDATE_THROTTLE \<le> now - lastUpdateTime d" and "UPDATE_THROTTLE \<le> now"
  shows "updates ((now, angles, landmarks) # calls) (reset d)
           = updates ((now, angles, landmarks) # calls) (newRepDetector (exercise d))"
proof -
  have "update angles landmarks now (reset d)
          = update angles landmarks now (newRepDetector (exercise d))"
    using assms by (simp add: reset_is_new_but_clock update_def newRepDetector_def)
  then show ?thesis by simp
qed

text \<open>Claim C1. A completed cycle is counted if and only if the time since the STARTING
  phase began lies within [1000 ms, 20000 ms]; outside the window the detector still
  goes to COMPLETE and on to IDLE, without counting. The source measures the duration
  from \<open>repStartTime\<close>, which only the first calibration call writes, and leaves the
  state as it is when the duration is outside the window. Evaluated from a new squat
  detector: a cycle that takes 450 ms from STARTING to standing again, 1250 ms after
  calibration began, is counted; a cycle of 2400 ms that begins 29 s after calibration
  began is not counted, and the detector stays in ENDING at each call that follows.\<close>

theorem rep_duration_measured_from_calibration:
  "map (\<lambda>det. (out_state det, out_repCount det))
       (fst (updates (standing_calibration @ quick_cycle) (newRepDetector Squat)))
     = replicate 25 (IDLE, 0) @ [(STARTING, 0), (PEAK, 0), (ENDING, 0), (COMPLETE, 1)]
   \<and> map (\<lambda>det. (out_state det, out_repCount det))
       (fst (updates (standing_calibration @ late_cycle) (newRepDetector Squat)))
     = replicate 25 (IDLE, 0)
       @ [(STARTING, 0), (PEAK, 0), (ENDING, 0), (ENDING, 0), (ENDING, 0), (ENDING, 0)]"
  by (simp add: updates_append calibration_leaves calibration_detections
      quick_cycle_detections late_cycle_detections)

lemma transitionTo_resets_confidence:
  assumes "currentState (transitionTo newState timestamp d) \<noteq> currentState d"
  shows "consecutiveFrames (transitionTo newState timestamp d) = 0
       \<and> stateConfidence (transitionTo newState timestamp d) = 0"
  using assms by (simp add: transitionTo_def Let_def split: if_splits)

lemma completeRep_keeps_confidence:
  "consecutiveFrames (completeRep timestamp d) = consecutiveFrames d
   \<and> stateConfidence (completeRep timestamp d) = stateConfidence d"
  by (simp add: completeRep_def Let_def)

lemma updateConfidence_value:
  "stateConfidence (updateConfidence d) = min 1 (real (consecutiveFrames d + 1) / 15)"
  by (simp add: updateConfidence_def Let_def)

text \<open>Claim C6. The confidence is \<open>min 1 (n / 15)\<close> for \<open>n\<close> consecutive calls in the
  current phase, and it is reset on every phase transition, the one into COMPLETE
  included. \<open>transitionTo\<close> resets the frame counter; \<open>completeRep\<close> sets the state to
  COMPLETE without it. Evaluated from a new squat detector: each of STARTING, PEAK and
  ENDING is entered with confidence 1/15, and COMPLETE, after one call in ENDING, with
  2/15.\<close>

theorem confidence_not_reset_on_complete:
  "map (\<lambda>det. (out_state det, out_confidence det))
       (drop 25 (fst (updates (standing_calibration @ quick_cycle) (newRepDetector Squat))))
     = [(STARTING, 1/15), (PEAK, 1/15), (ENDING, 1/15), (COMPLETE, 2/15)]"
  by (simp add: updates_append calibration_leaves calibration_detections
      quick_cycle_detections)

text \<open>Claim C5. \<open>reset()\<close> on a detector in any state gives an uncalibrated IDLE detector
  with rep count 0, and every sequence of \<open>update\<close> calls after it returns what the same
  calls return on a new detector of the same exercise. \<open>reset()\<close> writes every field but
  \<open>lastUpdateTime\<close>, so a call less than 50 ms after the last processed one is throttled
  where a new detector takes it as its first calibration frame. Evaluated: a squat
  detector calibrated and at depth (PEAK) at 2450 ms is reset; of 26 calls from 2470 ms
  on, the last is answered IDLE by the reset detector, which is at its 25th calibration
  frame, and STARTING by a new one.\<close>

theorem reset_keeps_throttle_clock:
  "currentState (snd (updates mid_rep_calls (newRepDetector Squat))) = PEAK
   \<and> isCalibrated (snd (updates mid_rep_calls (newRepDetector Squat)))
   \<and> currentState (reset (snd (updates mid_rep_calls (newRepDetector Squat)))) = IDLE
   \<and> \<not> isCalibrated (reset (snd (updates mid_rep_calls (newRepDetector Squat))))
   \<and> repCount (reset (snd (updates mid_rep_calls (newRepDetector Squat)))) = 0
   \<and> lastUpdateTime (reset (snd (updates mid_rep_calls (newRepDetector Squat)))) = 2450
   \<and> out_state (last (fst (updates calls_after_reset
         (reset (snd (updates mid_rep_calls (newRepDetector Squat))))))) = IDLE
   \<and> out_state (last (fst (updates calls_after_reset (newRepDetector Squat)))) = STARTING"
proof -
  have "currentState (snd (updates mid_rep_calls (newRepDetector Squat))) = PEAK
      \<and> isCalibrated (snd (updates mid_rep_calls (newRepDetector Squat)))
      \<and> currentState (reset (snd (updates mid_rep_calls (newRepDetector Squat)))) = IDLE
      \<and> \<not> isCalibrated (reset (snd (updates mid_rep_calls (newRepDetector Squat))))
      \<and> repCount (reset (snd (updates mid_rep_calls (newRepDetector Squat)))) = 0
      \<and> lastUpdateTime (reset (snd (updates mid_rep_calls (newRepDetector Squat)))) = 2450"
    by (simp add: mid_rep_state reset_def calibrated_standing_def)
  then show ?thesis
    by (simp add: after_reset_last fresh_last)
qed

section \<open>Smoothing memory across sessions\<close>

lemma toggleRecording_start_keeps_memory:
  "calculatorLastAngles (toggleRecording_start ex now page) = calculatorLastAngles page"
  by (simp add: toggleRecording_start_def)

lemma toggleRecording_stop_keeps_memory:
  "calculatorLastAngles (toggleRecording_stop now page) = calculatorLastAngles page"
  by (simp add: toggleRecording_stop_def)

lemma memory_never_cleared:
  "snd (calculateAngles landmarks (Some prev)) \<noteq> None"
  by (simp add: calculateAngles_def Let_def)

text \<open>Claim C2. The smoothing memory is reset whenever a new recording session begins, so
  the first frame of every session returns its raw angles and no session blends with
  angles of an earlier one. The memory is a static field that starting a recording does
  not write (it resets the detector and the local rep count only). Evaluated: a first
  session sees one frame with trunk and hip at 90 degrees and ends; the first frame of
  the next session has no visible landmark, so its raw angles are all 0, and the call
  returns trunk and hip 72 = 0.8 * 90 + 0.2 * 0.\<close>

theorem smoothing_memory_survives_session:
  "(let page1 = toggleRecording_start Squat 0 initialRecordPage;
        (first, page2) = handlePoseResults_angles leaningFrame page1;
        page3 = toggleRecording_start Squat 6000 (toggleRecording_stop 5000 page2);
        (second, page4) = handlePoseResults_angles hiddenFrame page3
    in first = Some (rawAngles leaningFrame)
     \<and> calculatorLastAngles page3 = Some (rawAngles leaningFrame)
     \<and> rawAngles hiddenFrame = zeroAngles
     \<and> second = Some (zeroAngles\<lparr>trunkAngle := 72, hipAngle := 72\<rparr>))"
proof -
  have l0: "length leaningFrame = 33" by (simp add: leaningFrame_def)
  have l1: "length hiddenFrame = 33" by (simp add: hiddenFrame_def)
  show ?thesis
    using l0 l1
    by (simp add: handlePoseResults_angles_def toggleRecording_start_def
        toggleRecording_stop_def initialRecordPage_def calculateAngles_def
        rawAngles_leaningFrame rawAngles_hiddenFrame zeroAngles_def smoothAll_def
        smoothAngle_def SMOOTHING_FACTOR_def Let_def)
qed

end
